theory Spec2Isabelle
  imports Main "HOL-Library.Word" "HOL-Library.Sublist"
begin

chapter \<open>Winfraa Enquiry App: the client-side logic\<close>

text \<open>
  A shallow embedding of the TypeScript services of the enquiry manager: the content
  validation of the AI email drafter, the client-side search of the enquiry list, the
  export pipeline, the data-access layer over the hosted backend and the reminder
  notification scheduler. Promises are modelled by their settled value: a rejection is
  the \<open>Inl\<close> of a sum, \<open>console\<close> output is a list of log entries returned next to
  the result, and the state a service mutates is passed in and returned.
\<close>

section \<open>JavaScript strings\<close>

text \<open>
  A JavaScript string is a sequence of UTF-16 code units and \<open>length\<close> counts code
  units, so a string is a list of 16-bit words. \<open>js\<close> embeds a literal of the source.
\<close>

type_synonym jschar = "16 word"
type_synonym jsstring = "jschar list"

definition js :: "string \<Rightarrow> jsstring" where
  "js s = map of_char s"

text \<open>\<open>WhiteSpace\<close> and \<open>LineTerminator\<close> of ECMAScript: what \<open>String.prototype.trim\<close> strips.\<close>

definition isWhiteSpace :: "jschar \<Rightarrow> bool" where
  "isWhiteSpace c \<longleftrightarrow>
     c \<in> {0x0009, 0x000A, 0x000B, 0x000C, 0x000D, 0x0020, 0x00A0, 0x1680,
          0x2028, 0x2029, 0x202F, 0x205F, 0x3000, 0xFEFF}
     \<or> (0x2000 \<le> c \<and> c \<le> 0x200A)"

text \<open>The code units that \<open>.\<close> of a regular expression (without the \<open>s\<close> flag) refuses.\<close>

definition isLineTerminator :: "jschar \<Rightarrow> bool" where
  "isLineTerminator c \<longleftrightarrow> c \<in> {0x000A, 0x000D, 0x2028, 0x2029}"

definition trim :: "jsstring \<Rightarrow> jsstring" where
  "trim s = rev (dropWhile isWhiteSpace (rev (dropWhile isWhiteSpace s)))"

text \<open>\<open>s.includes(t)\<close>: \<open>t\<close> occurs in \<open>s\<close> as a contiguous run of code units.\<close>

fun js_includes :: "jsstring \<Rightarrow> jsstring \<Rightarrow> bool" where
  "js_includes [] t = (t = [])"
| "js_includes (x # xs) t = (prefix t (x # xs) \<or> js_includes xs t)"

section \<open>AI email drafter: validation of the generated body\<close>

text \<open>
  The three patterns of \<open>validateResponse\<close> all have the shape
  \<open>opener .*? closer\<close>. \<open>lazy_dot_then cls s\<close> matches \<open>.*?cls\<close> at the start of
  \<open>s\<close>; \<open>regexp_test\<close> is \<open>RegExp.prototype.test\<close> on a fresh pattern object
  (\<open>lastIndex\<close> is 0: the array of patterns is rebuilt on every call), which tries every
  start position.
\<close>

datatype placeholder_pattern = Pattern jsstring jsstring

fun lazy_dot_then :: "jsstring \<Rightarrow> jsstring \<Rightarrow> bool" where
  "lazy_dot_then cls [] = (cls = [])"
| "lazy_dot_then cls (x # xs) =
     (prefix cls (x # xs) \<or> (\<not> isLineTerminator x \<and> lazy_dot_then cls xs))"

definition match_at :: "placeholder_pattern \<Rightarrow> jsstring \<Rightarrow> bool" where
  "match_at p s = (case p of Pattern opn cls \<Rightarrow>
     prefix opn s \<and> lazy_dot_then cls (drop (length opn) s))"

fun regexp_test :: "placeholder_pattern \<Rightarrow> jsstring \<Rightarrow> bool" where
  "regexp_test p [] = match_at p []"
| "regexp_test p (x # xs) = (match_at p (x # xs) \<or> regexp_test p xs)"

definition placeholderPatterns :: "placeholder_pattern list" where
  "placeholderPatterns =
     [Pattern (js ''['') (js '']''),
      Pattern (js ''{'') (js ''}''),
      Pattern (js ''{{'') (js ''}}'')]"

record validation =
  isValid :: bool
  message :: string

definition validateResponse :: "jsstring \<Rightarrow> validation" where
  "validateResponse content =
     (if content = [] \<or> length (trim content) = 0 then
        \<lparr>isValid = False, message = ''Generated content is empty''\<rparr>
      else if length (trim content) < 50 then
        \<lparr>isValid = False, message = ''Generated content is too short''\<rparr>
      else if length content > 5000 then
        \<lparr>isValid = False, message = ''Generated content is too long''\<rparr>
      else if list_ex (\<lambda>pattern. regexp_test pattern content) placeholderPatterns then
        \<lparr>isValid = False, message = ''Generated content contains unresolved placeholders''\<rparr>
      else
        \<lparr>isValid = True, message = ''Content validation passed''\<rparr>)"

text \<open>
  What the patterns look for, said without a matcher: an opener, later a closer, and no
  line terminator between the two.
\<close>

definition same_line_pair :: "jsstring \<Rightarrow> jsstring \<Rightarrow> jsstring \<Rightarrow> bool" where
  "same_line_pair opn cls s \<longleftrightarrow>
     (\<exists>pre mid post. s = pre @ opn @ mid @ cls @ post \<and> \<not> list_ex isLineTerminator mid)"

definition has_placeholder :: "jsstring \<Rightarrow> bool" where
  "has_placeholder s \<longleftrightarrow>
     same_line_pair (js ''['') (js '']'') s \<or> same_line_pair (js ''{'') (js ''}'') s"

definition bracket_chars :: "jschar set" where
  "bracket_chars = set (js ''[]{}'')"

section \<open>Data model\<close>

text \<open>
  The interfaces of the type definitions, one record each. An optional property
  (\<open>website?: string\<close>) is an \<open>option\<close>. Where two interfaces share a property name the
  fields carry a prefix (\<open>c_\<close> company, \<open>ct_\<close> contact, \<open>e_\<close> enquiry, \<open>r_\<close> reminder,
  \<open>x_\<close> export row, \<open>f_\<close> filter options, \<open>n_\<close> and \<open>p_\<close> notification data and
  payload). \<open>estimated_value\<close> is a \<open>NUMERIC(12,2)\<close>
  column; the model keeps the amount as an integer.
\<close>

record Company =
  c_id :: jsstring
  c_name :: jsstring
  c_address :: jsstring
  c_industry :: jsstring
  c_website :: "jsstring option"
  c_notes :: "jsstring option"
  c_owner :: jsstring
  c_created_at :: jsstring
  c_updated_at :: jsstring

record Contact =
  ct_id :: jsstring
  ct_company_id :: jsstring
  ct_name :: jsstring
  ct_designation :: jsstring
  ct_phone :: "jsstring option"
  ct_email :: "jsstring option"
  ct_is_primary :: bool
  ct_notes :: "jsstring option"
  ct_created_at :: jsstring

datatype EnquiryStatus = New | In_progress | Quoted | Won | Lost | On_hold

fun status_string :: "EnquiryStatus \<Rightarrow> jsstring" where
  "status_string New = js ''new''"
| "status_string In_progress = js ''in_progress''"
| "status_string Quoted = js ''quoted''"
| "status_string Won = js ''won''"
| "status_string Lost = js ''lost''"
| "status_string On_hold = js ''on_hold''"

record Enquiry =
  e_id :: jsstring
  company_id :: jsstring
  contact_id :: "jsstring option"
  enquiry_date :: jsstring
  status :: EnquiryStatus
  product_interest :: jsstring
  estimated_value :: "int option"
  e_notes :: "jsstring option"
  next_follow_up :: "jsstring option"
  owner :: jsstring
  created_at :: jsstring
  updated_at :: jsstring

record Reminder =
  r_id :: jsstring
  r_enquiry_id :: jsstring
  reminder_date :: jsstring
  r_title :: jsstring
  r_description :: jsstring
  is_completed :: bool
  r_created_at :: jsstring

record EnquiryWithRelations = Enquiry +
  company :: "Company option"
  contact :: "Contact option"

record EnquiryFilterOptions =
  f_status :: "EnquiryStatus list option"
  f_owner :: "jsstring option"
  dateFrom :: "jsstring option"
  dateTo :: "jsstring option"
  productInterest :: "jsstring option"
  companyId :: "jsstring option"
  searchTerm :: "jsstring option"

record ExportEnquiryData =
  x_company_name :: jsstring
  x_contact_name :: "jsstring option"
  x_contact_email :: "jsstring option"
  x_contact_phone :: "jsstring option"
  x_status :: EnquiryStatus
  x_product_interest :: jsstring
  x_estimated_value :: "int option"
  x_enquiry_date :: jsstring
  x_next_follow_up :: "jsstring option"
  x_notes :: "jsstring option"
  x_owner :: jsstring

record NotificationData =
  n_enquiry_id :: "jsstring option"
  n_reminder_id :: "jsstring option"
  n_screen :: "jsstring option"

record NotificationPayload =
  p_title :: jsstring
  p_body :: jsstring
  p_data :: "NotificationData option"

text \<open>
  \<open>x || d\<close> on an optional string: \<open>undefined\<close>, \<open>null\<close> and the empty string are
  falsy and give \<open>d\<close>.
\<close>

definition or_else :: "jsstring option \<Rightarrow> jsstring \<Rightarrow> jsstring" where
  "or_else x d = (case x of None \<Rightarrow> d | Some s \<Rightarrow> if s = [] then d else s)"

section \<open>Enquiry list: client-side search\<close>

text \<open>
  \<open>applySearch\<close> of the enquiry list screen; the value it passes to
  \<open>setFilteredEnquiries\<close> is the result. \<open>String.prototype.toLowerCase\<close> is the
  platform's Unicode case mapping and is a parameter. \<open>enquiry.company?.name?.toLowerCase()\<close>
  is \<open>undefined\<close> when the company is missing, and \<open>|| ''\<close> turns that into the empty
  string.
\<close>

definition matches_term :: "(jsstring \<Rightarrow> jsstring) \<Rightarrow> jsstring \<Rightarrow> EnquiryWithRelations \<Rightarrow> bool" where
  "matches_term toLowerCase lowerTerm enquiry =
     (let company_name = or_else (map_option (toLowerCase \<circ> c_name) (company enquiry)) [];
          contact_name = or_else (map_option (toLowerCase \<circ> ct_name) (contact enquiry)) [];
          product = or_else (Some (toLowerCase (product_interest enquiry))) []
      in js_includes company_name lowerTerm \<or> js_includes contact_name lowerTerm
         \<or> js_includes product lowerTerm)"

definition applySearch ::
  "(jsstring \<Rightarrow> jsstring) \<Rightarrow> EnquiryWithRelations list \<Rightarrow> jsstring \<Rightarrow> EnquiryWithRelations list" where
  "applySearch toLowerCase data term =
     (if term = [] then data
      else let lowerTerm = toLowerCase term
           in filter (matches_term toLowerCase lowerTerm) data)"

section \<open>Errors and console output\<close>

text \<open>
  What a rejected promise carries: the error object of a backend response, or any other
  error with its message. An \<open>async\<close> function settles to \<open>exn + 'a\<close> and its
  \<open>console\<close> calls are collected in the order they happen.
\<close>

record pg_error =
  err_code :: jsstring
  err_message :: jsstring

datatype exn = PostgrestError pg_error | JsError jsstring

datatype log_entry = ConsoleError string exn | ConsoleWarn string | ConsoleLog jsstring

type_synonym 'a settled = "exn + 'a"

section \<open>Export utilities\<close>

datatype jsvalue = Undefined | Str jsstring | Num int

fun nat_digits :: "nat \<Rightarrow> jsstring" where
  "nat_digits n =
     (if n < 10 then [of_nat (48 + n)] else nat_digits (n div 10) @ [of_nat (48 + n mod 10)])"

definition number_string :: "int \<Rightarrow> jsstring" where
  "number_string i = (if i < 0 then js ''-'' @ nat_digits (nat (- i)) else nat_digits (nat i))"

definition opt_str :: "jsstring option \<Rightarrow> jsvalue" where
  "opt_str x = (case x of None \<Rightarrow> Undefined | Some s \<Rightarrow> Str s)"

definition opt_num :: "int option \<Rightarrow> jsvalue" where
  "opt_num x = (case x of None \<Rightarrow> Undefined | Some n \<Rightarrow> Num n)"

text \<open>
  An export row as an object: its own properties in insertion order. The rows are built
  by \<open>getEnquiriesForExport\<close>, whose object literal names all eleven properties, so a
  missing value is a property holding \<open>undefined\<close>. These are the only rows the
  application exports, and the only ones modelled: an object that leaves an optional
  property out altogether, which the type \<open>ExportEnquiryData\<close> also admits, has fewer
  keys and is not a value of \<open>export_entries\<close>.
\<close>

definition export_entries :: "ExportEnquiryData \<Rightarrow> (string \<times> jsvalue) list" where
  "export_entries item =
     [(''company_name'', Str (x_company_name item)),
      (''contact_name'', opt_str (x_contact_name item)),
      (''contact_email'', opt_str (x_contact_email item)),
      (''contact_phone'', opt_str (x_contact_phone item)),
      (''status'', Str (status_string (x_status item))),
      (''product_interest'', Str (x_product_interest item)),
      (''estimated_value'', opt_num (x_estimated_value item)),
      (''enquiry_date'', Str (x_enquiry_date item)),
      (''next_follow_up'', opt_str (x_next_follow_up item)),
      (''notes'', opt_str (x_notes item)),
      (''owner'', Str (x_owner item))]"

text \<open>
  \<open>Papa.unparse\<close> belongs to the papaparse library, not to this repository. It is
  modelled by its documented behaviour on an array of objects: the field names are the
  keys of the first object, they form the header line, every object gives one line with
  the value of each field in that order, and \<open>undefined\<close> and \<open>null\<close> are written
  as an empty field. The model keeps the table of field values; the text joins them with
  the delimiter and quotes a value where CSV needs it.
\<close>

type_synonym csv = "jsstring list list"

definition papa_safe :: "jsvalue \<Rightarrow> jsstring" where
  "papa_safe v = (case v of Undefined \<Rightarrow> [] | Str s \<Rightarrow> s | Num n \<Rightarrow> number_string n)"

definition property :: "(string \<times> jsvalue) list \<Rightarrow> string \<Rightarrow> jsvalue" where
  "property obj k = (case map_of obj k of None \<Rightarrow> Undefined | Some v \<Rightarrow> v)"

definition papa_unparse :: "(string \<times> jsvalue) list list \<Rightarrow> csv" where
  "papa_unparse objs =
     (case objs of
        [] \<Rightarrow> []
      | first # _ \<Rightarrow>
          (let fields = map fst first
           in map js fields # map (\<lambda>obj. map (\<lambda>k. papa_safe (property obj k)) fields) objs))"

text \<open>
  The device: the app's document directory, the files written there, what was handed to
  the share sheet, and how the platform calls behave (an error if the write or the share
  rejects, and whether sharing is available on the host).
\<close>

record device =
  documentDirectory :: jsstring
  files :: "jsstring \<rightharpoonup> csv"
  shared :: "jsstring list"
  write_error :: "exn option"
  sharing_available :: bool
  share_error :: "exn option"

definition exportToCSV ::
  "device \<Rightarrow> ExportEnquiryData list \<Rightarrow> jsstring option
     \<Rightarrow> device \<times> log_entry list \<times> jsstring settled" where
  "exportToCSV dev rows filename_arg =
     (let filename = (case filename_arg of None \<Rightarrow> js ''enquiries.csv'' | Some f \<Rightarrow> f);
          csv = papa_unparse (map export_entries rows);
          fileUri = documentDirectory dev @ filename
      in case write_error dev of
           Some e \<Rightarrow> (dev, [ConsoleError ''Error exporting to CSV:'' e], Inl e)
         | None \<Rightarrow>
             (let dev1 = dev\<lparr>files := (files dev)(fileUri \<mapsto> csv)\<rparr>
              in if sharing_available dev1 then
                   (case share_error dev1 of
                      Some e \<Rightarrow> (dev1, [ConsoleError ''Error exporting to CSV:'' e], Inl e)
                    | None \<Rightarrow> (dev1\<lparr>shared := shared dev1 @ [fileUri]\<rparr>, [], Inr fileUri))
                 else (dev1, [], Inr fileUri)))"

definition getCSVHeaders :: "string list" where
  "getCSVHeaders =
     [''company_name'', ''contact_name'', ''contact_email'', ''contact_phone'', ''status'',
      ''product_interest'', ''estimated_value'', ''enquiry_date'', ''next_follow_up'',
      ''notes'', ''owner'']"

text \<open>
  \<open>formatForExport\<close>: \<open>x || '-'\<close> puts the dash for a missing or empty string, and
  \<open>item.estimated_value ? ... : '-'\<close> for a missing or zero amount.
\<close>

definition formatForExport :: "ExportEnquiryData list \<Rightarrow> (string \<times> jsvalue) list list" where
  "formatForExport rows = map (\<lambda>item.
     [(''Company Name'', Str (x_company_name item)),
      (''Contact Name'', Str (or_else (x_contact_name item) (js ''-''))),
      (''Contact Email'', Str (or_else (x_contact_email item) (js ''-''))),
      (''Contact Phone'', Str (or_else (x_contact_phone item) (js ''-''))),
      (''Status'', Str (status_string (x_status item))),
      (''Product Interest'', Str (x_product_interest item)),
      (''Estimated Value'',
         Str (case x_estimated_value item of
                None \<Rightarrow> js ''-''
              | Some v \<Rightarrow> if v = 0 then js ''-'' else js ''$'' @ number_string v)),
      (''Enquiry Date'', Str (x_enquiry_date item)),
      (''Next Follow-up'', Str (or_else (x_next_follow_up item) (js ''-''))),
      (''Notes'', Str (or_else (x_notes item) (js ''-''))),
      (''Owner'', Str (x_owner item))]) rows"

section \<open>Data-access layer\<close>

text \<open>
  A query of the backend client settles to \<open>{ data, error }\<close>, or rejects. The queries
  that the service sends are the fields of \<open>backend\<close>: the single-row lookups by id,
  the filtered selections, and the update, which also changes the backend's state
  \<open>'db\<close>.
\<close>

record 'a response =
  rs_data :: "'a option"
  rs_error :: "pg_error option"

datatype pg_filter =
    Is_in string "jsstring list"
  | Eq string jsstring
  | Eq_bool string bool
  | Gte string jsstring
  | Lte string jsstring
  | Ilike string jsstring

record pg_query =
  q_filters :: "pg_filter list"
  q_order :: "(string \<times> bool) option"
  q_range :: "(int \<times> int) option"

text \<open>\<open>Partial<Enquiry>\<close>: every property may be absent.\<close>

record Enquiry_patch =
  u_id :: "jsstring option"
  u_company_id :: "jsstring option"
  u_contact_id :: "jsstring option option"
  u_enquiry_date :: "jsstring option"
  u_status :: "EnquiryStatus option"
  u_product_interest :: "jsstring option"
  u_estimated_value :: "int option option"
  u_notes :: "jsstring option option"
  u_next_follow_up :: "jsstring option option"
  u_owner :: "jsstring option"
  u_created_at :: "jsstring option"
  u_updated_at :: "jsstring option"

record 'db backend =
  companies_by_id :: "jsstring \<Rightarrow> Company response settled"
  contacts_by_id :: "jsstring \<Rightarrow> Contact response settled"
  enquiries_by_id :: "jsstring \<Rightarrow> EnquiryWithRelations response settled"
  enquiries_select :: "pg_query \<Rightarrow> EnquiryWithRelations list response settled"
  reminders_select :: "pg_query \<Rightarrow> Reminder list response settled"
  enquiries_update :: "'db \<Rightarrow> jsstring \<Rightarrow> Enquiry_patch \<Rightarrow> 'db \<times> Enquiry response settled"

type_synonym 'a io = "log_entry list \<times> 'a settled"

text \<open>
  The body shared by the three lookups:
  \<open>if (error && error.code !== 'PGRST116') throw error; return data || null;\<close>
  inside \<open>try { ... } catch (error) { console.error(msg, error); throw error; }\<close>.
\<close>

definition single_or_null :: "string \<Rightarrow> 'a response settled \<Rightarrow> 'a option io" where
  "single_or_null msg awaited =
     (case awaited of
        Inl e \<Rightarrow> ([ConsoleError msg e], Inl e)
      | Inr r \<Rightarrow>
          (case rs_error r of
             Some err \<Rightarrow>
               if err_code err \<noteq> js ''PGRST116''
               then ([ConsoleError msg (PostgrestError err)], Inl (PostgrestError err))
               else ([], Inr (rs_data r))
           | None \<Rightarrow> ([], Inr (rs_data r))))"

definition getCompanyById :: "'db backend \<Rightarrow> jsstring \<Rightarrow> Company option io" where
  "getCompanyById b i = single_or_null ''Error fetching company:'' (companies_by_id b i)"

definition getContactById :: "'db backend \<Rightarrow> jsstring \<Rightarrow> Contact option io" where
  "getContactById b i = single_or_null ''Error fetching contact:'' (contacts_by_id b i)"

definition getEnquiryById :: "'db backend \<Rightarrow> jsstring \<Rightarrow> EnquiryWithRelations option io" where
  "getEnquiryById b i = single_or_null ''Error fetching enquiry:'' (enquiries_by_id b i)"

text \<open>
  The body shared by the list queries:
  \<open>if (error) throw error; return data || [];\<close> in the same \<open>try\<close>/\<open>catch\<close>.
\<close>

definition rows_or_empty :: "string \<Rightarrow> 'a list response settled \<Rightarrow> 'a list io" where
  "rows_or_empty msg awaited =
     (case awaited of
        Inl e \<Rightarrow> ([ConsoleError msg e], Inl e)
      | Inr r \<Rightarrow>
          (case rs_error r of
             Some err \<Rightarrow> ([ConsoleError msg (PostgrestError err)], Inl (PostgrestError err))
           | None \<Rightarrow> ([], Inr (case rs_data r of None \<Rightarrow> [] | Some rows \<Rightarrow> rows))))"




definition updateEnquiry ::
  "'db backend \<Rightarrow> 'db \<Rightarrow> jsstring \<Rightarrow> Enquiry_patch \<Rightarrow> 'db \<times> Enquiry option io" where
  "updateEnquiry b db i updates =
     (case enquiries_update b db i updates of
        (db', Inl e) \<Rightarrow> (db', [ConsoleError ''Error updating enquiry:'' e], Inl e)
      | (db', Inr r) \<Rightarrow>
          (case rs_error r of
             Some err \<Rightarrow>
               (db', [ConsoleError ''Error updating enquiry:'' (PostgrestError err)],
                Inl (PostgrestError err))
           | None \<Rightarrow> (db', [], Inr (rs_data r))))"



section \<open>Enquiry detail: changing the status\<close>

record detail_screen =
  ds_saving :: bool
  ds_enquiry :: "Enquiry option"
  ds_showStatusModal :: bool
  ds_error :: "jsstring option"

text \<open>The object literal \<open>{ status: newStatus }\<close>.\<close>

definition status_patch :: "EnquiryStatus \<Rightarrow> Enquiry_patch" where
  "status_patch newStatus =
     \<lparr>u_id = None, u_company_id = None, u_contact_id = None, u_enquiry_date = None,
      u_status = Some newStatus, u_product_interest = None, u_estimated_value = None,
      u_notes = None, u_next_follow_up = None, u_owner = None, u_created_at = None,
      u_updated_at = None\<rparr>"

text \<open>
  \<open>err instanceof Error ? err.message : fallback\<close>. The error of a backend response is
  a plain object, not an \<open>Error\<close>, so it gives the fallback text; any other rejection
  is an \<open>Error\<close> and gives its message.
\<close>

definition error_message :: "exn \<Rightarrow> jsstring \<Rightarrow> jsstring" where
  "error_message e fallback = (case e of PostgrestError err \<Rightarrow> fallback | JsError m \<Rightarrow> m)"

definition handleStatusChange ::
  "'db backend \<Rightarrow> 'db \<Rightarrow> detail_screen \<Rightarrow> jsstring \<Rightarrow> EnquiryStatus
     \<Rightarrow> 'db \<times> detail_screen \<times> log_entry list" where
  "handleStatusChange b db scr enquiryId newStatus =
     (let scr1 = scr\<lparr>ds_saving := True\<rparr>
      in case updateEnquiry b db enquiryId (status_patch newStatus) of
           (db', log, Inr updated) \<Rightarrow>
             (db', scr1\<lparr>ds_enquiry := updated, ds_showStatusModal := False, ds_saving := False\<rparr>,
              log)
         | (db', log, Inl err) \<Rightarrow>
             (db', scr1\<lparr>ds_error := Some (error_message err (js ''Failed to update status'')),
                   ds_saving := False\<rparr>,
              log @ [ConsoleError ''Status update error:'' err]))"

section \<open>The hosted backend, as the service uses it\<close>

text \<open>
  The backend is not part of the repository. Its tables follow the schema of the setup
  guide (\<open>id\<close> is the primary key of each table, and no trigger touches a row on
  update), and its answers follow the query interface the service relies on:
  \<open>.single()\<close> answers with the one row found, and with the error \<open>PGRST116\<close> and no
  data when another number of rows is found; a selection keeps the rows that satisfy
  every filter, orders them, and cuts the range \<open>from..to\<close>, both ends included; an
  update sets exactly the columns that the payload names. How one filter is evaluated on
  a row, and the rank of a row in the order of a column, are left to the backend
  (\<open>pg_sem\<close>).
\<close>

record database =
  t_companies :: "Company list"
  t_contacts :: "Contact list"
  t_enquiries :: "Enquiry list"
  t_reminders :: "Reminder list"

record pg_sem =
  holds :: "pg_filter \<Rightarrow> Enquiry \<Rightarrow> bool"
  rank :: "string \<Rightarrow> Enquiry \<Rightarrow> nat"
  holds_reminder :: "pg_filter \<Rightarrow> Reminder \<Rightarrow> bool"
  rank_reminder :: "string \<Rightarrow> Reminder \<Rightarrow> nat"

definition pg_not_found :: pg_error where
  "pg_not_found = \<lparr>err_code = js ''PGRST116'',
                    err_message = js ''JSON object requested, multiple (or no) rows returned''\<rparr>"

definition pg_single :: "'a list \<Rightarrow> 'a response" where
  "pg_single found =
     (case found of
        [r] \<Rightarrow> \<lparr>rs_data = Some r, rs_error = None\<rparr>
      | _ \<Rightarrow> \<lparr>rs_data = None, rs_error = Some pg_not_found\<rparr>)"

definition pg_order :: "(string \<Rightarrow> 'a \<Rightarrow> nat) \<Rightarrow> (string \<times> bool) option \<Rightarrow> 'a list \<Rightarrow> 'a list" where
  "pg_order rk ord rows =
     (case ord of
        None \<Rightarrow> rows
      | Some (col, ascending) \<Rightarrow>
          if ascending then sort_key (rk col) rows else rev (sort_key (rk col) rows))"

definition pg_range :: "(int \<times> int) option \<Rightarrow> 'a list \<Rightarrow> 'a list" where
  "pg_range rg rows =
     (case rg of None \<Rightarrow> rows | Some (lo, hi) \<Rightarrow> take (nat (hi - lo + 1)) (drop (nat lo) rows))"

definition pg_select ::
  "(pg_filter \<Rightarrow> 'a \<Rightarrow> bool) \<Rightarrow> (string \<Rightarrow> 'a \<Rightarrow> nat) \<Rightarrow> 'a list \<Rightarrow> pg_query \<Rightarrow> 'a list" where
  "pg_select sat rk table q =
     pg_range (q_range q)
       (pg_order rk (q_order q) (filter (\<lambda>row. list_all (\<lambda>f. sat f row) (q_filters q)) table))"

text \<open>The embedded relations \<open>company:companies(*)\<close> and \<open>contact:contacts(*)\<close>.\<close>

definition embed :: "database \<Rightarrow> Enquiry \<Rightarrow> EnquiryWithRelations" where
  "embed db e =
     Enquiry.extend e
       (EnquiryWithRelations.fields
          (find (\<lambda>c. c_id c = company_id e) (t_companies db))
          (case contact_id e of
             None \<Rightarrow> None
           | Some i \<Rightarrow> find (\<lambda>p. ct_id p = i) (t_contacts db)))"

definition apply_patch :: "Enquiry_patch \<Rightarrow> Enquiry \<Rightarrow> Enquiry" where
  "apply_patch u e =
     \<lparr>e_id = (case u_id u of None \<Rightarrow> e_id e | Some v \<Rightarrow> v),
      company_id = (case u_company_id u of None \<Rightarrow> company_id e | Some v \<Rightarrow> v),
      contact_id = (case u_contact_id u of None \<Rightarrow> contact_id e | Some v \<Rightarrow> v),
      enquiry_date = (case u_enquiry_date u of None \<Rightarrow> enquiry_date e | Some v \<Rightarrow> v),
      status = (case u_status u of None \<Rightarrow> status e | Some v \<Rightarrow> v),
      product_interest =
        (case u_product_interest u of None \<Rightarrow> product_interest e | Some v \<Rightarrow> v),
      estimated_value =
        (case u_estimated_value u of None \<Rightarrow> estimated_value e | Some v \<Rightarrow> v),
      e_notes = (case u_notes u of None \<Rightarrow> e_notes e | Some v \<Rightarrow> v),
      next_follow_up = (case u_next_follow_up u of None \<Rightarrow> next_follow_up e | Some v \<Rightarrow> v),
      owner = (case u_owner u of None \<Rightarrow> owner e | Some v \<Rightarrow> v),
      created_at = (case u_created_at u of None \<Rightarrow> created_at e | Some v \<Rightarrow> v),
      updated_at = (case u_updated_at u of None \<Rightarrow> updated_at e | Some v \<Rightarrow> v)\<rparr>"

definition pg_update_enquiry ::
  "database \<Rightarrow> jsstring \<Rightarrow> Enquiry_patch \<Rightarrow> database \<times> Enquiry response settled" where
  "pg_update_enquiry db i u =
     (case filter (\<lambda>e. e_id e = i) (t_enquiries db) of
        [old] \<Rightarrow>
          (db\<lparr>t_enquiries := map (\<lambda>e. if e_id e = i then apply_patch u e else e) (t_enquiries db)\<rparr>,
           Inr \<lparr>rs_data = Some (apply_patch u old), rs_error = None\<rparr>)
      | _ \<Rightarrow> (db, Inr \<lparr>rs_data = None, rs_error = Some pg_not_found\<rparr>))"

definition pg_backend :: "pg_sem \<Rightarrow> database \<Rightarrow> database backend" where
  "pg_backend sem db =
     \<lparr>companies_by_id = (\<lambda>i. Inr (pg_single (filter (\<lambda>c. c_id c = i) (t_companies db)))),
      contacts_by_id = (\<lambda>i. Inr (pg_single (filter (\<lambda>p. ct_id p = i) (t_contacts db)))),
      enquiries_by_id =
        (\<lambda>i. Inr (pg_single (map (embed db) (filter (\<lambda>e. e_id e = i) (t_enquiries db))))),
      enquiries_select =
        (\<lambda>q. Inr \<lparr>rs_data = Some (map (embed db) (pg_select (holds sem) (rank sem) (t_enquiries db) q)),
                  rs_error = None\<rparr>),
      reminders_select =
        (\<lambda>q. Inr \<lparr>rs_data = Some (pg_select (holds_reminder sem) (rank_reminder sem)
                                     (t_reminders db) q),
                  rs_error = None\<rparr>),
      enquiries_update = pg_update_enquiry\<rparr>"

section \<open>Reminder notification scheduler\<close>

text \<open>
  The service keeps the map from reminder id to notification id. The platform
  (expo-notifications) has a state of its own, \<open>'p\<close>, and three calls that the service
  uses; each may reject. \<open>calls\<close> records the platform calls the service makes, in
  order. The clock gives \<open>new Date()\<close> as milliseconds, \<open>new Date(s)\<close> for a string
  (\<open>None\<close> is the invalid date, whose time value is NaN) and \<open>toISOString\<close>; it is
  read once for an operation.
\<close>

record clock =
  now :: int
  parse_date :: "jsstring \<Rightarrow> int option"
  toISOString :: "int \<Rightarrow> jsstring"

datatype platform_call =
    ScheduleCall NotificationPayload "int option"
  | CancelCall jsstring
  | CancelAllCall

record 'p expo =
  scheduleNotificationAsync :: "'p \<Rightarrow> NotificationPayload \<Rightarrow> int option \<Rightarrow> 'p \<times> jsstring settled"
  cancelScheduledNotificationAsync :: "'p \<Rightarrow> jsstring \<Rightarrow> 'p \<times> unit settled"
  cancelAllScheduledNotificationsAsync :: "'p \<Rightarrow> 'p \<times> unit settled"

record 'p notifier =
  scheduledNotifications :: "jsstring \<rightharpoonup> jsstring"
  platform :: 'p
  calls :: "platform_call list"
  console :: "log_entry list"

text \<open>\<open>a <= b\<close> on dates compares the time values; with NaN it is false.\<close>

definition date_le :: "int option \<Rightarrow> int \<Rightarrow> bool" where
  "date_le a b = (case a of None \<Rightarrow> False | Some t \<Rightarrow> t \<le> b)"

definition scheduleNotification ::
  "'p expo \<Rightarrow> 'p notifier \<Rightarrow> NotificationPayload \<Rightarrow> int option \<Rightarrow> 'p notifier \<times> jsstring option" where
  "scheduleNotification api st payload triggerDate =
     (let (p', r) = scheduleNotificationAsync api (platform st) payload triggerDate;
          st1 = st\<lparr>platform := p', calls := calls st @ [ScheduleCall payload triggerDate]\<rparr>
      in case r of
           Inr notificationId \<Rightarrow> (st1, Some notificationId)
         | Inl e \<Rightarrow>
             (st1\<lparr>console := console st1 @ [ConsoleError ''Error scheduling notification:'' e]\<rparr>,
              None))"

definition reminder_payload :: "Reminder \<Rightarrow> NotificationPayload" where
  "reminder_payload reminder =
     \<lparr>p_title = js ''Follow-up Reminder'',
      p_body = r_title reminder,
      p_data = Some \<lparr>n_enquiry_id = Some (r_enquiry_id reminder),
                     n_reminder_id = Some (r_id reminder),
                     n_screen = Some (js ''EnquiryDetail'')\<rparr>\<rparr>"

definition scheduleReminderNotification ::
  "clock \<Rightarrow> 'p expo \<Rightarrow> 'p notifier \<Rightarrow> Reminder \<Rightarrow> 'p notifier \<times> unit settled" where
  "scheduleReminderNotification clk api st reminder =
     (let reminderDate = parse_date clk (reminder_date reminder)
      in if date_le reminderDate (now clk) then
           (st\<lparr>console := console st
                  @ [ConsoleWarn ''Reminder date is in the past, skipping scheduling'']\<rparr>,
            Inr ())
         else
           (let (st1, notificationId) =
                  scheduleNotification api st (reminder_payload reminder) reminderDate
            in case notificationId of
                 None \<Rightarrow> (st1, Inr ())
               | Some nid \<Rightarrow>
                   if nid = [] then (st1, Inr ())
                   else (st1\<lparr>scheduledNotifications :=
                               (scheduledNotifications st1)(r_id reminder \<mapsto> nid)\<rparr>,
                         Inr ())))"

definition cancelNotification :: "'p expo \<Rightarrow> 'p notifier \<Rightarrow> jsstring \<Rightarrow> 'p notifier \<times> unit settled" where
  "cancelNotification api st notificationId =
     (let (p', r) = cancelScheduledNotificationAsync api (platform st) notificationId;
          st1 = st\<lparr>platform := p', calls := calls st @ [CancelCall notificationId]\<rparr>
      in case r of
           Inr _ \<Rightarrow> (st1, Inr ())
         | Inl e \<Rightarrow>
             (st1\<lparr>console := console st1 @ [ConsoleError ''Error canceling notification:'' e]\<rparr>,
              Inr ()))"

definition cancelReminderNotification ::
  "'p expo \<Rightarrow> 'p notifier \<Rightarrow> jsstring \<Rightarrow> 'p notifier \<times> unit settled" where
  "cancelReminderNotification api st reminderId =
     (case scheduledNotifications st reminderId of
        None \<Rightarrow> (st, Inr ())
      | Some notificationId \<Rightarrow>
          if notificationId = [] then (st, Inr ())
          else (let (st1, _) = cancelNotification api st notificationId
                in (st1\<lparr>scheduledNotifications := (scheduledNotifications st1)(reminderId := None)\<rparr>,
                    Inr ())))"

definition cancelAllNotifications :: "'p expo \<Rightarrow> 'p notifier \<Rightarrow> 'p notifier \<times> unit settled" where
  "cancelAllNotifications api st =
     (let (p', r) = cancelAllScheduledNotificationsAsync api (platform st);
          st1 = st\<lparr>platform := p', calls := calls st @ [CancelAllCall]\<rparr>
      in case r of
           Inr _ \<Rightarrow> (st1\<lparr>scheduledNotifications := Map.empty\<rparr>, Inr ())
         | Inl e \<Rightarrow>
             (st1\<lparr>console := console st1
                     @ [ConsoleError ''Error canceling all notifications:'' e]\<rparr>,
              Inr ()))"

definition getUpcomingReminders :: "clock \<Rightarrow> 'db backend \<Rightarrow> int \<Rightarrow> Reminder list io" where
  "getUpcomingReminders clk b days =
     (let today = now clk;
          futureDate = today + days * 24 * 60 * 60 * 1000
      in rows_or_empty ''Error fetching upcoming reminders:''
           (reminders_select b
              \<lparr>q_filters = [Eq_bool ''is_completed'' False,
                            Gte ''reminder_date'' (toISOString clk today),
                            Lte ''reminder_date'' (toISOString clk futureDate)],
               q_order = Some (''reminder_date'', True),
               q_range = None\<rparr>))"

text \<open>The loop of \<open>syncReminders\<close> over the fetched reminders.\<close>

fun schedule_each :: "clock \<Rightarrow> 'p expo \<Rightarrow> 'p notifier \<Rightarrow> Reminder list \<Rightarrow> 'p notifier" where
  "schedule_each clk api st [] = st"
| "schedule_each clk api st (reminder # rest) =
     (if \<not> is_completed reminder
      then schedule_each clk api (fst (scheduleReminderNotification clk api st reminder)) rest
      else schedule_each clk api st rest)"

definition syncReminders ::
  "clock \<Rightarrow> 'db backend \<Rightarrow> 'p expo \<Rightarrow> 'p notifier \<Rightarrow> 'p notifier \<times> unit settled" where
  "syncReminders clk b api st =
     (case getUpcomingReminders clk b 30 of
        (log, Inl e) \<Rightarrow>
          (st\<lparr>console := console st @ log @ [ConsoleError ''Error syncing reminders:'' e]\<rparr>,
           Inr ())
      | (log, Inr fetched) \<Rightarrow>
          (let st0 = st\<lparr>console := console st @ log\<rparr>;
               st1 = fst (cancelAllNotifications api st0);
               st2 = schedule_each clk api st1 fetched
           in (st2\<lparr>console := console st2
                     @ [ConsoleLog (js ''Synced '' @ number_string (int (length fetched))
                                    @ js '' reminders'')]\<rparr>,
               Inr ())))"

section \<open>Sample inputs\<close>

definition ten_chars :: jsstring where
  "ten_chars = js ''Hello test''"

definition greeting_with_placeholder :: jsstring where
  "greeting_with_placeholder =
     js ''Dear {customer_name}, thank you for your enquiry about our pumps.''"

definition paragraph_200 :: jsstring where
  "paragraph_200 = js (''Dear Mr Kumar, thank you for your enquiry about our industrial pumps. ''
     @ ''We would be glad to arrange a demonstration at your plant next week and to ''
     @ ''send a detailed quotation. Kind regards, Winfraa Sales.'')"

definition two_line_bracket :: jsstring where
  "two_line_bracket =
     js ''Dear [first\<newline>name], thank you for your enquiry about our pumps.''"

text \<open>A lower-casing that agrees with \<open>toLowerCase\<close> on ASCII text, for the examples.\<close>

definition ascii_lower :: "jsstring \<Rightarrow> jsstring" where
  "ascii_lower s = map (\<lambda>c. if 0x41 \<le> c \<and> c \<le> 0x5A then c + 0x20 else c) s"

definition acme :: Company where
  "acme = \<lparr>c_id = js ''c1'', c_name = js ''Acme Hydraulics'', c_address = js ''Chennai'',
            c_industry = js ''Engineering'', c_website = None, c_notes = None,
            c_owner = js ''mathi'', c_created_at = js ''2024-01-01T00:00:00Z'',
            c_updated_at = js ''2024-01-01T00:00:00Z''\<rparr>"

definition ravi :: Contact where
  "ravi = \<lparr>ct_id = js ''p1'', ct_company_id = js ''c1'', ct_name = js ''Ravi Kumar'',
            ct_designation = js ''Buyer'', ct_phone = None, ct_email = None,
            ct_is_primary = True, ct_notes = None,
            ct_created_at = js ''2024-01-01T00:00:00Z''\<rparr>"

definition pump_enquiry :: Enquiry where
  "pump_enquiry = \<lparr>e_id = js ''e1'', company_id = js ''c1'', contact_id = None,
      enquiry_date = js ''2024-03-01'', status = New, product_interest = js ''Gear Pumps'',
      estimated_value = None, e_notes = None, next_follow_up = None, owner = js ''mathi'',
      created_at = js ''2024-03-01T00:00:00Z'', updated_at = js ''2024-03-01T00:00:00Z''\<rparr>"

definition valve_enquiry :: Enquiry where
  "valve_enquiry = pump_enquiry\<lparr>e_id := js ''e2'', contact_id := Some (js ''p1''),
      status := Won, product_interest := js ''Valves'', estimated_value := Some 2500\<rparr>"

text \<open>An enquiry whose company and contact are missing, and one that has both.\<close>

definition orphan_row :: EnquiryWithRelations where
  "orphan_row = Enquiry.extend pump_enquiry (EnquiryWithRelations.fields None None)"

definition full_row :: EnquiryWithRelations where
  "full_row = Enquiry.extend valve_enquiry (EnquiryWithRelations.fields (Some acme) (Some ravi))"

text \<open>An enquiry whose company is missing and whose contact is present.\<close>

definition contact_only_row :: EnquiryWithRelations where
  "contact_only_row = Enquiry.extend valve_enquiry (EnquiryWithRelations.fields None (Some ravi))"

text \<open>The export row of an enquiry that has no contact, no amount, no follow-up, no notes.\<close>

definition bare_export_row :: ExportEnquiryData where
  "bare_export_row = \<lparr>x_company_name = js ''Acme Hydraulics'', x_contact_name = None,
      x_contact_email = None, x_contact_phone = None, x_status = New,
      x_product_interest = js ''Gear Pumps'', x_estimated_value = None,
      x_enquiry_date = js ''2024-03-01'', x_next_follow_up = None, x_notes = None,
      x_owner = js ''mathi''\<rparr>"

definition phone :: device where
  "phone = \<lparr>documentDirectory = js ''file:///docs/'', files = Map.empty, shared = [],
             write_error = None, sharing_available = True, share_error = None\<rparr>"

text \<open>
  A small database, one with 1001 enquiries, a backend semantics for the examples (every
  filter holds, every row has the same rank), and a backend that refuses the lookups.
\<close>

definition small_db :: database where
  "small_db = \<lparr>t_companies = [acme], t_contacts = [ravi],
                t_enquiries = [pump_enquiry, valve_enquiry], t_reminders = []\<rparr>"


definition plain_sem :: pg_sem where
  "plain_sem = \<lparr>holds = (\<lambda>f e. True), rank = (\<lambda>c e. 0),
                 holds_reminder = (\<lambda>f r. True), rank_reminder = (\<lambda>c r. 0)\<rparr>"

definition permission_denied :: pg_error where
  "permission_denied = \<lparr>err_code = js ''42501'', err_message = js ''permission denied''\<rparr>"

definition refusing_backend :: "database backend" where
  "refusing_backend = (pg_backend plain_sem small_db)
     \<lparr>companies_by_id := (\<lambda>i. Inr \<lparr>rs_data = None, rs_error = Some permission_denied\<rparr>),
      contacts_by_id := (\<lambda>i. Inr \<lparr>rs_data = None, rs_error = Some permission_denied\<rparr>),
      enquiries_by_id := (\<lambda>i. Inr \<lparr>rs_data = None, rs_error = Some permission_denied\<rparr>)\<rparr>"

definition idle_screen :: detail_screen where
  "idle_screen = \<lparr>ds_saving = False, ds_enquiry = Some pump_enquiry,
                   ds_showStatusModal = True, ds_error = None\<rparr>"

text \<open>
  A clock at one million milliseconds that reads two date strings, a platform that
  numbers its notifications, one whose cancel-all call rejects, a backend without upcoming
  reminders, and the scheduler with one notification scheduled.
\<close>

definition test_clock :: clock where
  "test_clock = \<lparr>now = 1000000,
                  parse_date = (\<lambda>s. if s = js ''past'' then Some 999999
                                     else if s = js ''future'' then Some 2000000 else None),
                  toISOString = (\<lambda>t. number_string t)\<rparr>"

definition numbering_expo :: "nat expo" where
  "numbering_expo =
     \<lparr>scheduleNotificationAsync = (\<lambda>n payload date. (Suc n, Inr (js ''n'' @ nat_digits n))),
      cancelScheduledNotificationAsync = (\<lambda>n i. (n, Inr ())),
      cancelAllScheduledNotificationsAsync = (\<lambda>n. (n, Inr ()))\<rparr>"

definition stuck_expo :: "nat expo" where
  "stuck_expo = numbering_expo
     \<lparr>cancelAllScheduledNotificationsAsync := (\<lambda>n. (n, Inl (JsError (js ''unavailable''))))\<rparr>"

definition quiet_backend :: "database backend" where
  "quiet_backend = pg_backend plain_sem small_db"

definition one_scheduled :: "nat notifier" where
  "one_scheduled = \<lparr>scheduledNotifications = [js ''r1'' \<mapsto> js ''n0''], platform = 1,
                     calls = [], console = []\<rparr>"

text \<open>
  A platform that keeps the pending notification ids and counts the cancel calls it
  receives, and the scheduler over it with one notification scheduled and a hundred
  cancels counted.
\<close>

definition counting_expo :: "(jsstring list \<times> nat) expo" where
  "counting_expo =
     \<lparr>scheduleNotificationAsync =
        (\<lambda>(pending, cancels) payload date.
           ((pending @ [js ''n'' @ nat_digits (length pending)], cancels),
            Inr (js ''n'' @ nat_digits (length pending)))),
      cancelScheduledNotificationAsync =
        (\<lambda>(pending, cancels) i. ((removeAll i pending, Suc cancels), Inr ())),
      cancelAllScheduledNotificationsAsync =
        (\<lambda>(pending, cancels). (([], cancels), Inr ()))\<rparr>"

definition one_pending :: "(jsstring list \<times> nat) notifier" where
  "one_pending = \<lparr>scheduledNotifications = [js ''r1'' \<mapsto> js ''n0''],
                   platform = ([js ''n0''], 100), calls = [], console = []\<rparr>"

definition reminder_r2 :: "jsstring \<Rightarrow> Reminder" where
  "reminder_r2 due = \<lparr>r_id = js ''r2'', r_enquiry_id = js ''e1'', reminder_date = due,
                      r_title = js ''Call back'', r_description = js '''',
                      is_completed = False, r_created_at = js ''2024-03-01T00:00:00Z''\<rparr>"

chapter \<open>Properties\<close>

section \<open>The pattern matcher\<close>

lemma lazy_dot_then_iff:
  "lazy_dot_then cls s \<longleftrightarrow>
     (\<exists>mid post. s = mid @ cls @ post \<and> \<not> list_ex isLineTerminator mid)"
proof (induction s)
  case Nil
  show ?case by auto
next
  case (Cons x xs)
  show ?case
  proof
    assume "lazy_dot_then cls (x # xs)"
    then consider "prefix cls (x # xs)" | "\<not> isLineTerminator x" "lazy_dot_then cls xs"
      by auto
    then show "\<exists>mid post. x # xs = mid @ cls @ post \<and> \<not> list_ex isLineTerminator mid"
    proof cases
      case 1
      then obtain post where "x # xs = cls @ post" by (auto simp: prefix_def)
      then have "x # xs = [] @ cls @ post \<and> \<not> list_ex isLineTerminator []" by simp
      then show ?thesis by blast
    next
      case 2
      with Cons.IH obtain mid post
        where "xs = mid @ cls @ post" "\<not> list_ex isLineTerminator mid"
        by blast
      with 2 have "x # xs = (x # mid) @ cls @ post \<and> \<not> list_ex isLineTerminator (x # mid)"
        by simp
      then show ?thesis by blast
    qed
  next
    assume "\<exists>mid post. x # xs = mid @ cls @ post \<and> \<not> list_ex isLineTerminator mid"
    then obtain mid post
      where *: "x # xs = mid @ cls @ post" "\<not> list_ex isLineTerminator mid"
      by blast
    show "lazy_dot_then cls (x # xs)"
    proof (cases mid)
      case Nil
      with * have "prefix cls (x # xs)" by (simp add: prefix_def)
      then show ?thesis by simp
    next
      case (Cons y mid')
      with * have "y = x" "xs = mid' @ cls @ post" "\<not> isLineTerminator x"
        "\<not> list_ex isLineTerminator mid'"
        by auto
      with Cons.IH show ?thesis by auto
    qed
  qed
qed

lemma match_at_iff:
  "match_at (Pattern opn cls) s \<longleftrightarrow>
     (\<exists>mid post. s = opn @ mid @ cls @ post \<and> \<not> list_ex isLineTerminator mid)"
proof
  assume "match_at (Pattern opn cls) s"
  then obtain zs mid post where "s = opn @ zs" "drop (length opn) s = mid @ cls @ post"
    "\<not> list_ex isLineTerminator mid"
    by (auto simp: match_at_def lazy_dot_then_iff prefix_def)
  then have "s = opn @ mid @ cls @ post \<and> \<not> list_ex isLineTerminator mid" by simp
  then show "\<exists>mid post. s = opn @ mid @ cls @ post \<and> \<not> list_ex isLineTerminator mid"
    by blast
next
  assume "\<exists>mid post. s = opn @ mid @ cls @ post \<and> \<not> list_ex isLineTerminator mid"
  then obtain mid post where "s = opn @ mid @ cls @ post" "\<not> list_ex isLineTerminator mid"
    by blast
  then have "prefix opn s" "drop (length opn) s = mid @ cls @ post" by simp_all
  with \<open>\<not> list_ex isLineTerminator mid\<close> show "match_at (Pattern opn cls) s"
    unfolding match_at_def placeholder_pattern.case lazy_dot_then_iff by blast
qed

lemma regexp_test_iff:
  "regexp_test (Pattern opn cls) s \<longleftrightarrow> same_line_pair opn cls s"
proof (induction s)
  case Nil
  show ?case by (auto simp: match_at_iff same_line_pair_def)
next
  case (Cons x xs)
  show ?case
  proof
    assume "regexp_test (Pattern opn cls) (x # xs)"
    then consider "match_at (Pattern opn cls) (x # xs)" | "same_line_pair opn cls xs"
      using Cons.IH by auto
    then show "same_line_pair opn cls (x # xs)"
    proof cases
      case 1
      then obtain mid post
        where "x # xs = [] @ opn @ mid @ cls @ post" "\<not> list_ex isLineTerminator mid"
        by (auto simp: match_at_iff)
      then show ?thesis unfolding same_line_pair_def by blast
    next
      case 2
      then obtain pre mid post
        where "xs = pre @ opn @ mid @ cls @ post" "\<not> list_ex isLineTerminator mid"
        by (auto simp: same_line_pair_def)
      then have "x # xs = (x # pre) @ opn @ mid @ cls @ post
                 \<and> \<not> list_ex isLineTerminator mid"
        by simp
      then show ?thesis unfolding same_line_pair_def by blast
    qed
  next
    assume "same_line_pair opn cls (x # xs)"
    then obtain pre mid post
      where *: "x # xs = pre @ opn @ mid @ cls @ post" "\<not> list_ex isLineTerminator mid"
      by (auto simp: same_line_pair_def)
    show "regexp_test (Pattern opn cls) (x # xs)"
    proof (cases pre)
      case Nil
      with * have "match_at (Pattern opn cls) (x # xs)" by (auto simp: match_at_iff)
      then show ?thesis by simp
    next
      case (Cons y pre')
      with * have "xs = pre' @ opn @ mid @ cls @ post" by simp
      with * have "same_line_pair opn cls xs" unfolding same_line_pair_def by blast
      with Cons.IH show ?thesis by simp
    qed
  qed
qed

section \<open>AI content validation\<close>

lemma double_brace_is_brace:
  assumes "same_line_pair (js ''{{'') (js ''}}'') s"
  shows "same_line_pair (js ''{'') (js ''}'') s"
proof -
  from assms obtain pre mid post
    where s: "s = pre @ js ''{{'' @ mid @ js ''}}'' @ post" and m: "\<not> list_ex isLineTerminator mid"
    by (auto simp: same_line_pair_def)
  from s have "s = pre @ js ''{'' @ (js ''{'' @ mid) @ js ''}'' @ (js ''}'' @ post)"
    by (simp add: js_def)
  moreover from m have "\<not> list_ex isLineTerminator (js ''{'' @ mid)"
    by (simp add: js_def isLineTerminator_def)
  ultimately show ?thesis unfolding same_line_pair_def by blast
qed

lemma placeholderPatterns_iff:
  "list_ex (\<lambda>pattern. regexp_test pattern s) placeholderPatterns \<longleftrightarrow> has_placeholder s"
  using double_brace_is_brace [of s]
  by (auto simp: placeholderPatterns_def regexp_test_iff has_placeholder_def)

lemma trim_Nil_iff: "(s = [] \<or> length (trim s) = 0) \<longleftrightarrow> trim s = []"
  by (auto simp: trim_def)

lemma validateResponse_chain:
  "validateResponse c =
     (if trim c = [] then \<lparr>isValid = False, message = ''Generated content is empty''\<rparr>
      else if length (trim c) < 50 then
        \<lparr>isValid = False, message = ''Generated content is too short''\<rparr>
      else if 5000 < length c then
        \<lparr>isValid = False, message = ''Generated content is too long''\<rparr>
      else if has_placeholder c then
        \<lparr>isValid = False, message = ''Generated content contains unresolved placeholders''\<rparr>
      else \<lparr>isValid = True, message = ''Content validation passed''\<rparr>)"
  unfolding validateResponse_def placeholderPatterns_iff trim_Nil_iff by simp

lemma length_trim_le: "length (trim s) \<le> length s"
proof -
  have "length (trim s) \<le> length (dropWhile isWhiteSpace s)"
    unfolding trim_def using length_dropWhile_le [of isWhiteSpace "rev (dropWhile isWhiteSpace s)"]
    by simp
  also have "\<dots> \<le> length s" by (rule length_dropWhile_le)
  finally show ?thesis .
qed

lemma same_line_pair_chars:
  "same_line_pair [a] [b] s \<Longrightarrow> a \<in> set s \<and> b \<in> set s"
  by (auto simp: same_line_pair_def)

lemma no_brackets_no_placeholder:
  assumes "set s \<inter> bracket_chars = {}"
  shows "\<not> has_placeholder s"
proof
  assume "has_placeholder s"
  then have "of_char CHR ''['' \<in> set s \<or> of_char CHR ''{'' \<in> set s"
    unfolding has_placeholder_def js_def using same_line_pair_chars by fastforce
  with assms show False by (auto simp: bracket_chars_def js_def)
qed

lemma js_includes_iff: "js_includes s t \<longleftrightarrow> sublist t s"
  by (induction s) (auto simp: sublist_Cons_right)

lemma customer_name_placeholder:
  assumes "js_includes s (js ''{customer_name}'')"
  shows "has_placeholder s"
proof -
  from assms obtain ps ss where "s = ps @ js ''{customer_name}'' @ ss"
    by (auto simp: js_includes_iff sublist_def)
  then have "s = ps @ js ''{'' @ js ''customer_name'' @ js ''}'' @ ss"
    by (simp add: js_def)
  moreover have "\<not> list_ex isLineTerminator (js ''customer_name'')"
    by (simp add: js_def isLineTerminator_def)
  ultimately show ?thesis unfolding has_placeholder_def same_line_pair_def by blast
qed

text \<open>
  Claim C3, as the code has it. The checks run in a fixed order and the first that fails
  gives the message: a body that is empty or only white space is rejected as empty; else
  one whose trimmed length is under 50 as too short; else one whose length is over 5000 as
  too long; else one that has an opening bracket (or brace) followed by its closing one
  with no line terminator between them as containing unresolved placeholders; every
  other body passes. So every 10-character string is rejected, as too short unless it is
  all white space; a string containing \<open>{customer_name}\<close> is always rejected, and
  with the placeholder message exactly when its trimmed length is at least 50 and its
  length at most 5000; and a 200-character body whose trimmed length is at least 50 and
  that has no bracket or brace passes.
\<close>

theorem validateResponse_checks:
  "validateResponse c =
     (if trim c = [] then \<lparr>isValid = False, message = ''Generated content is empty''\<rparr>
      else if length (trim c) < 50 then
        \<lparr>isValid = False, message = ''Generated content is too short''\<rparr>
      else if 5000 < length c then
        \<lparr>isValid = False, message = ''Generated content is too long''\<rparr>
      else if has_placeholder c then
        \<lparr>isValid = False, message = ''Generated content contains unresolved placeholders''\<rparr>
      else \<lparr>isValid = True, message = ''Content validation passed''\<rparr>)
   \<and> (length c = 10 \<longrightarrow>
        \<not> isValid (validateResponse c)
        \<and> (message (validateResponse c) = ''Generated content is too short'' \<longleftrightarrow> trim c \<noteq> []))
   \<and> (js_includes c (js ''{customer_name}'') \<longrightarrow>
        \<not> isValid (validateResponse c)
        \<and> (message (validateResponse c) = ''Generated content contains unresolved placeholders''
             \<longleftrightarrow> 50 \<le> length (trim c) \<and> length c \<le> 5000))
   \<and> (length c = 200 \<and> 50 \<le> length (trim c) \<and> set c \<inter> bracket_chars = {} \<longrightarrow>
        validateResponse c = \<lparr>isValid = True, message = ''Content validation passed''\<rparr>)"
proof (intro conjI impI)
  show "validateResponse c =
     (if trim c = [] then \<lparr>isValid = False, message = ''Generated content is empty''\<rparr>
      else if length (trim c) < 50 then
        \<lparr>isValid = False, message = ''Generated content is too short''\<rparr>
      else if 5000 < length c then
        \<lparr>isValid = False, message = ''Generated content is too long''\<rparr>
      else if has_placeholder c then
        \<lparr>isValid = False, message = ''Generated content contains unresolved placeholders''\<rparr>
      else \<lparr>isValid = True, message = ''Content validation passed''\<rparr>)"
    by (rule validateResponse_chain)
next
  assume "length c = 10"
  with length_trim_le [of c] have "length (trim c) < 50" by simp
  then show "\<not> isValid (validateResponse c)"
    and "message (validateResponse c) = ''Generated content is too short'' \<longleftrightarrow> trim c \<noteq> []"
    by (simp_all add: validateResponse_chain)
next
  assume "js_includes c (js ''{customer_name}'')"
  then have "has_placeholder c" by (rule customer_name_placeholder)
  then show "\<not> isValid (validateResponse c)"
    and "message (validateResponse c) = ''Generated content contains unresolved placeholders''
         \<longleftrightarrow> 50 \<le> length (trim c) \<and> length c \<le> 5000"
    by (auto simp: validateResponse_chain)
next
  assume "length c = 200 \<and> 50 \<le> length (trim c) \<and> set c \<inter> bracket_chars = {}"
  then have "length c = 200" "50 \<le> length (trim c)" "\<not> has_placeholder c"
    using no_brackets_no_placeholder by blast+
  then show "validateResponse c = \<lparr>isValid = True, message = ''Content validation passed''\<rparr>"
    by (auto simp: validateResponse_chain)
qed

theorem validateResponse_checks_witness:
  "length ten_chars = 10
   \<and> validateResponse ten_chars
       = \<lparr>isValid = False, message = ''Generated content is too short''\<rparr>
   \<and> js_includes greeting_with_placeholder (js ''{customer_name}'')
   \<and> validateResponse greeting_with_placeholder
       = \<lparr>isValid = False, message = ''Generated content contains unresolved placeholders''\<rparr>
   \<and> length paragraph_200 = 200
   \<and> validateResponse paragraph_200
       = \<lparr>isValid = True, message = ''Content validation passed''\<rparr>"
proof -
  have t: "length ten_chars = 10" "trim ten_chars \<noteq> []"
    by (simp_all add: ten_chars_def js_def trim_def isWhiteSpace_def)
  have g: "js_includes greeting_with_placeholder (js ''{customer_name}'')"
    "50 \<le> length (trim greeting_with_placeholder)" "length greeting_with_placeholder \<le> 5000"
    by (simp_all add: greeting_with_placeholder_def js_def trim_def isWhiteSpace_def)
  have p: "length paragraph_200 = 200" "50 \<le> length (trim paragraph_200)"
    "set paragraph_200 \<inter> bracket_chars = {}"
    by (simp_all add: paragraph_200_def js_def trim_def isWhiteSpace_def bracket_chars_def)
  from t validateResponse_checks [of ten_chars]
  have "validateResponse ten_chars
          = \<lparr>isValid = False, message = ''Generated content is too short''\<rparr>"
    by (cases "validateResponse ten_chars") simp
  moreover from g validateResponse_checks [of greeting_with_placeholder]
  have "validateResponse greeting_with_placeholder
          = \<lparr>isValid = False, message = ''Generated content contains unresolved placeholders''\<rparr>"
    by (cases "validateResponse greeting_with_placeholder") simp
  moreover from p validateResponse_checks [of paragraph_200]
  have "validateResponse paragraph_200
          = \<lparr>isValid = True, message = ''Content validation passed''\<rparr>"
    by blast
  ultimately show ?thesis using t g p by blast
qed

theorem validateResponse_counterexample:
  "js_includes (js ''Hi {customer_name}'') (js ''{customer_name}'')
   \<and> validateResponse (js ''Hi {customer_name}'')
       = \<lparr>isValid = False, message = ''Generated content is too short''\<rparr>
   \<and> length (js ''          '') = 10
   \<and> validateResponse (js ''          '')
       = \<lparr>isValid = False, message = ''Generated content is empty''\<rparr>
   \<and> validateResponse two_line_bracket
       = \<lparr>isValid = True, message = ''Content validation passed''\<rparr>"
  by code_simp

section \<open>Client-side search\<close>

lemma js_includes_Nil [simp]: "js_includes s [] = True"
  by (cases s) simp_all

lemma js_includes_empty_subject: "js_includes [] t \<longleftrightarrow> t = []"
  by simp

text \<open>
  Claim C2: whatever records the server-side filters returned and whatever the search
  term, the searched list is drawn from those records, in their order, and with an empty
  term it is those records unmodified.
\<close>

theorem applySearch_narrows:
  "set (applySearch toLowerCase rows t) \<subseteq> set rows
   \<and> subseq (applySearch toLowerCase rows t) rows
   \<and> applySearch toLowerCase rows [] = rows"
  by (simp add: applySearch_def Let_def)

theorem applySearch_narrows_witness:
  "applySearch ascii_lower [orphan_row, full_row] (js ''PUMP'') = [orphan_row]
   \<and> set [orphan_row] \<subseteq> set [orphan_row, full_row]
   \<and> applySearch ascii_lower [orphan_row, full_row] [] = [orphan_row, full_row]"
proof -
  have "applySearch ascii_lower [orphan_row, full_row] (js ''PUMP'') = [orphan_row]"
    by (simp add: applySearch_def matches_term_def or_else_def ascii_lower_def js_def
        orphan_row_def full_row_def pump_enquiry_def valve_enquiry_def acme_def ravi_def
        Enquiry.defs EnquiryWithRelations.defs)
  with applySearch_narrows [of ascii_lower "[orphan_row, full_row]" "js ''PUMP''"]
  show ?thesis by simp
qed

text \<open>
  Claim C9: the search has no failing path (the model of \<open>applySearch\<close> is a total
  function without an error result, as every access of the source is guarded by \<open>?.\<close>),
  and a missing company or contact counts as the empty name. A record matches a lower-cased
  term that is not empty exactly when the lower-cased name of its company, if it has one,
  or of its contact, if it has one, or its lower-cased product interest includes the term,
  and the search with a non-empty term keeps exactly those records. So a record without
  company (contact) matches exactly as it would with a company (contact) whose lower-cased
  name is empty, and when both are missing it matches through its product interest
  alone.
\<close>

theorem applySearch_missing_relations:
  "(company e = None \<and> toLowerCase (c_name c) = [] \<longrightarrow>
      matches_term toLowerCase lt e = matches_term toLowerCase lt (e\<lparr>company := Some c\<rparr>))
   \<and> (contact e = None \<and> toLowerCase (ct_name p) = [] \<longrightarrow>
      matches_term toLowerCase lt e = matches_term toLowerCase lt (e\<lparr>contact := Some p\<rparr>))
   \<and> (company e = None \<and> contact e = None \<and> t \<noteq> [] \<and> toLowerCase t \<noteq> [] \<longrightarrow>
      (e \<in> set (applySearch toLowerCase rows t) \<longleftrightarrow>
         e \<in> set rows \<and> js_includes (toLowerCase (product_interest e)) (toLowerCase t)))
   \<and> (lt \<noteq> [] \<longrightarrow>
      matches_term toLowerCase lt e =
        ((case company e of None \<Rightarrow> False
          | Some co \<Rightarrow> js_includes (toLowerCase (c_name co)) lt)
         \<or> (case contact e of None \<Rightarrow> False
             | Some pe \<Rightarrow> js_includes (toLowerCase (ct_name pe)) lt)
         \<or> js_includes (toLowerCase (product_interest e)) lt))
   \<and> (t \<noteq> [] \<and> toLowerCase t \<noteq> [] \<longrightarrow>
      applySearch toLowerCase rows t =
        filter (\<lambda>r. (case company r of None \<Rightarrow> False
                      | Some co \<Rightarrow> js_includes (toLowerCase (c_name co)) (toLowerCase t))
                   \<or> (case contact r of None \<Rightarrow> False
                       | Some pe \<Rightarrow> js_includes (toLowerCase (ct_name pe)) (toLowerCase t))
                   \<or> js_includes (toLowerCase (product_interest r)) (toLowerCase t)) rows)"
proof -
  have m: "matches_term toLowerCase l r =
        ((case company r of None \<Rightarrow> False
          | Some co \<Rightarrow> js_includes (toLowerCase (c_name co)) l)
         \<or> (case contact r of None \<Rightarrow> False
             | Some pe \<Rightarrow> js_includes (toLowerCase (ct_name pe)) l)
         \<or> js_includes (toLowerCase (product_interest r)) l)"
    if "l \<noteq> []" for l and r :: EnquiryWithRelations
    using that by (auto simp: matches_term_def or_else_def Let_def split: option.splits)
  have f: "applySearch toLowerCase rows t =
        filter (\<lambda>r. (case company r of None \<Rightarrow> False
                      | Some co \<Rightarrow> js_includes (toLowerCase (c_name co)) (toLowerCase t))
                   \<or> (case contact r of None \<Rightarrow> False
                       | Some pe \<Rightarrow> js_includes (toLowerCase (ct_name pe)) (toLowerCase t))
                   \<or> js_includes (toLowerCase (product_interest r)) (toLowerCase t)) rows"
    if "t \<noteq> []" "toLowerCase t \<noteq> []"
    using that by (simp add: applySearch_def Let_def m cong: filter_cong)
  have old: "(company e = None \<and> toLowerCase (c_name c) = [] \<longrightarrow>
      matches_term toLowerCase lt e = matches_term toLowerCase lt (e\<lparr>company := Some c\<rparr>))
   \<and> (contact e = None \<and> toLowerCase (ct_name p) = [] \<longrightarrow>
      matches_term toLowerCase lt e = matches_term toLowerCase lt (e\<lparr>contact := Some p\<rparr>))
   \<and> (company e = None \<and> contact e = None \<and> t \<noteq> [] \<and> toLowerCase t \<noteq> [] \<longrightarrow>
      (e \<in> set (applySearch toLowerCase rows t) \<longleftrightarrow>
         e \<in> set rows \<and> js_includes (toLowerCase (product_interest e)) (toLowerCase t)))"
    by (auto simp: applySearch_def matches_term_def or_else_def Let_def)
  from old m [of lt e] f show ?thesis by blast
qed

theorem applySearch_missing_relations_witness:
  "company orphan_row = None \<and> contact orphan_row = None
   \<and> orphan_row \<in> set (applySearch ascii_lower [orphan_row, full_row] (js ''PUMP''))
   \<and> orphan_row \<notin> set (applySearch ascii_lower [orphan_row, full_row] (js ''acme''))
   \<and> matches_term ascii_lower (js ''pump'') orphan_row
       = matches_term ascii_lower (js ''pump'') (orphan_row\<lparr>company := Some (acme\<lparr>c_name := []\<rparr>)\<rparr>)
   \<and> company contact_only_row = None \<and> contact contact_only_row = Some ravi
   \<and> applySearch ascii_lower [orphan_row, contact_only_row] (js ''RAVI'') = [contact_only_row]
   \<and> applySearch ascii_lower [orphan_row, contact_only_row] (js ''zzz'') = []
   \<and> applySearch ascii_lower [orphan_row, contact_only_row] (js ''Acme'') = []
   \<and> matches_term ascii_lower (js ''ravi'') contact_only_row
   \<and> \<not> matches_term ascii_lower (js ''zzz'') contact_only_row"
proof -
  have h: "company orphan_row = None" "contact orphan_row = None"
    by (simp_all add: orphan_row_def Enquiry.defs EnquiryWithRelations.defs)
  have l: "js ''PUMP'' \<noteq> []" "ascii_lower (js ''PUMP'') \<noteq> []"
    "js ''acme'' \<noteq> []" "ascii_lower (js ''acme'') \<noteq> []"
    "ascii_lower (c_name (acme\<lparr>c_name := []\<rparr>)) = []"
    by (simp_all add: js_def ascii_lower_def)
  have p: "js_includes (ascii_lower (product_interest orphan_row)) (ascii_lower (js ''PUMP''))"
    "\<not> js_includes (ascii_lower (product_interest orphan_row)) (ascii_lower (js ''acme''))"
    by (simp_all add: orphan_row_def pump_enquiry_def Enquiry.defs EnquiryWithRelations.defs
        js_def ascii_lower_def)
  have r: "orphan_row \<in> set [orphan_row, full_row]" by simp
  from h l p r
    applySearch_missing_relations [of orphan_row ascii_lower "acme\<lparr>c_name := []\<rparr>"
      "js ''pump''" ravi "js ''PUMP''" "[orphan_row, full_row]"]
    applySearch_missing_relations [of orphan_row ascii_lower "acme\<lparr>c_name := []\<rparr>"
      "js ''pump''" ravi "js ''acme''" "[orphan_row, full_row]"]
  have 1: "orphan_row \<in> set (applySearch ascii_lower [orphan_row, full_row] (js ''PUMP''))"
    "orphan_row \<notin> set (applySearch ascii_lower [orphan_row, full_row] (js ''acme''))"
    "matches_term ascii_lower (js ''pump'') orphan_row
       = matches_term ascii_lower (js ''pump'') (orphan_row\<lparr>company := Some (acme\<lparr>c_name := []\<rparr>)\<rparr>)"
    by blast+
  have k: "company contact_only_row = None" "contact contact_only_row = Some ravi"
    "product_interest contact_only_row = js ''Valves''"
    "product_interest orphan_row = js ''Gear Pumps''"
    "ct_name ravi = js ''Ravi Kumar''"
    by (simp_all add: contact_only_row_def orphan_row_def valve_enquiry_def pump_enquiry_def
        ravi_def Enquiry.defs EnquiryWithRelations.defs)
  have n: "js ''RAVI'' \<noteq> []" "ascii_lower (js ''RAVI'') \<noteq> []"
    "js ''zzz'' \<noteq> []" "ascii_lower (js ''zzz'') \<noteq> []"
    "js ''Acme'' \<noteq> []" "ascii_lower (js ''Acme'') \<noteq> []"
    "js ''ravi'' \<noteq> []"
    by (simp_all add: js_def ascii_lower_def)
  note a = applySearch_missing_relations [where toLowerCase = ascii_lower
      and e = contact_only_row and c = acme and p = ravi
      and rows = "[orphan_row, contact_only_row]"]
  from a [where t = "js ''RAVI''" and lt = "js ''ravi''"] n
  have 2: "applySearch ascii_lower [orphan_row, contact_only_row] (js ''RAVI'') = [contact_only_row]"
    "matches_term ascii_lower (js ''ravi'') contact_only_row"
    by (simp_all add: h k js_def ascii_lower_def)
  from a [where t = "js ''zzz''" and lt = "js ''zzz''"] n
  have 3: "applySearch ascii_lower [orphan_row, contact_only_row] (js ''zzz'') = []"
    "\<not> matches_term ascii_lower (js ''zzz'') contact_only_row"
    by (simp_all add: h k js_def ascii_lower_def)
  from a [where t = "js ''Acme''" and lt = "js ''acme''"] n
  have 4: "applySearch ascii_lower [orphan_row, contact_only_row] (js ''Acme'') = []"
    by (simp add: h k js_def ascii_lower_def)
  from h 1 k(1,2) 2 3 4 show ?thesis by blast
qed

section \<open>Export\<close>

lemma export_entries_keys: "map fst (export_entries item) = getCSVHeaders"
  by (simp add: export_entries_def getCSVHeaders_def)

lemma papa_unparse_export_header:
  "rows \<noteq> [] \<Longrightarrow> hd (papa_unparse (map export_entries rows)) = map js getCSVHeaders"
  by (cases rows) (simp_all add: papa_unparse_def export_entries_keys)

lemma papa_unparse_export_columns:
  "line \<in> set (papa_unparse (map export_entries rows)) \<Longrightarrow> length line = 11"
  by (cases rows) (auto simp: papa_unparse_def export_entries_keys getCSVHeaders_def)

lemma papa_unparse_export_line:
  "papa_unparse (map export_entries (item # rows)) ! 1 =
     [x_company_name item, papa_safe (opt_str (x_contact_name item)),
      papa_safe (opt_str (x_contact_email item)), papa_safe (opt_str (x_contact_phone item)),
      status_string (x_status item), x_product_interest item,
      papa_safe (opt_num (x_estimated_value item)), x_enquiry_date item,
      papa_safe (opt_str (x_next_follow_up item)), papa_safe (opt_str (x_notes item)),
      x_owner item]"
  by (simp add: papa_unparse_def export_entries_def property_def papa_safe_def)

lemma formatForExport_row:
  "map (map fst) (formatForExport rows) =
     map (\<lambda>_. [''Company Name'', ''Contact Name'', ''Contact Email'', ''Contact Phone'',
                ''Status'', ''Product Interest'', ''Estimated Value'', ''Enquiry Date'',
                ''Next Follow-up'', ''Notes'', ''Owner'']) rows"
  by (simp add: formatForExport_def)

lemma formatForExport_dash:
  "formatForExport [item] = [obj] \<Longrightarrow>
     length obj = 11
     \<and> (x_contact_name item = None \<longrightarrow> property obj ''Contact Name'' = Str (js ''-''))
     \<and> (x_contact_email item = None \<longrightarrow> property obj ''Contact Email'' = Str (js ''-''))
     \<and> (x_contact_phone item = None \<longrightarrow> property obj ''Contact Phone'' = Str (js ''-''))
     \<and> (x_estimated_value item = None \<longrightarrow> property obj ''Estimated Value'' = Str (js ''-''))
     \<and> (x_next_follow_up item = None \<longrightarrow> property obj ''Next Follow-up'' = Str (js ''-''))
     \<and> (x_notes item = None \<longrightarrow> property obj ''Notes'' = Str (js ''-''))"
  by (auto simp: formatForExport_def property_def or_else_def)

text \<open>
  Claim C1 at the export row of an enquiry without contact, amount, follow-up and notes.
  The file that \<open>exportToCSV\<close> writes has the eleven columns in the fixed order, but
  the missing values are empty fields: the rows reach \<open>Papa.unparse\<close> as they are, and
  \<open>formatForExport\<close>, which puts the dash at the same row, is not called on the way.
\<close>

theorem exportToCSV_blank_not_dash:
  "exportToCSV phone [bare_export_row] None =
     (phone\<lparr>files := [js ''file:///docs/enquiries.csv'' \<mapsto>
                [map js getCSVHeaders,
                 [js ''Acme Hydraulics'', [], [], [], js ''new'', js ''Gear Pumps'', [],
                  js ''2024-03-01'', [], [], js ''mathi'']]],
            shared := [js ''file:///docs/enquiries.csv'']\<rparr>,
      [], Inr (js ''file:///docs/enquiries.csv''))
   \<and> map (map snd) (formatForExport [bare_export_row]) =
       [[Str (js ''Acme Hydraulics''), Str (js ''-''), Str (js ''-''), Str (js ''-''),
         Str (js ''new''), Str (js ''Gear Pumps''), Str (js ''-''), Str (js ''2024-03-01''),
         Str (js ''-''), Str (js ''-''), Str (js ''mathi'')]]"
  by (simp add: exportToCSV_def phone_def bare_export_row_def papa_unparse_def
      export_entries_def getCSVHeaders_def property_def papa_safe_def opt_str_def opt_num_def
      formatForExport_def or_else_def js_def Let_def)

section \<open>Single-record lookups\<close>

lemma single_or_null_error:
  "rs_error r = Some err \<Longrightarrow>
     single_or_null msg (Inr r) =
       (if err_code err = js ''PGRST116'' then ([], Inr (rs_data r))
        else ([ConsoleError msg (PostgrestError err)], Inl (PostgrestError err)))"
  by (simp add: single_or_null_def)

lemma single_or_null_rejected: "single_or_null msg (Inl e) = ([ConsoleError msg e], Inl e)"
  by (simp add: single_or_null_def)

lemma single_or_null_pg_single:
  "single_or_null msg (Inr (pg_single found)) =
     ([], Inr (case found of [r] \<Rightarrow> Some r | _ \<Rightarrow> None))"
  by (simp add: single_or_null_def pg_single_def pg_not_found_def split: list.splits)

text \<open>
  Claim C7: when the backend answers a lookup by id with an error, the code
  \<open>PGRST116\<close> gives the normal result \<open>data || null\<close>, with nothing logged and nothing
  thrown (\<open>null\<close> when no row has the id, as the backend then sends no data), and every
  other code, like a rejected request, is logged and thrown again; the same for a
  company, a contact and an enquiry.
\<close>

theorem lookup_row_not_found:
  "(companies_by_id b i = Inr rc \<and> rs_error rc = Some err \<longrightarrow>
      getCompanyById b i =
        (if err_code err = js ''PGRST116'' then ([], Inr (rs_data rc))
         else ([ConsoleError ''Error fetching company:'' (PostgrestError err)],
               Inl (PostgrestError err))))
   \<and> (contacts_by_id b i = Inr rp \<and> rs_error rp = Some err \<longrightarrow>
      getContactById b i =
        (if err_code err = js ''PGRST116'' then ([], Inr (rs_data rp))
         else ([ConsoleError ''Error fetching contact:'' (PostgrestError err)],
               Inl (PostgrestError err))))
   \<and> (enquiries_by_id b i = Inr re \<and> rs_error re = Some err \<longrightarrow>
      getEnquiryById b i =
        (if err_code err = js ''PGRST116'' then ([], Inr (rs_data re))
         else ([ConsoleError ''Error fetching enquiry:'' (PostgrestError err)],
               Inl (PostgrestError err))))
   \<and> (companies_by_id b i = Inl e \<longrightarrow>
      getCompanyById b i = ([ConsoleError ''Error fetching company:'' e], Inl e))
   \<and> (contacts_by_id b i = Inl e \<longrightarrow>
      getContactById b i = ([ConsoleError ''Error fetching contact:'' e], Inl e))
   \<and> (enquiries_by_id b i = Inl e \<longrightarrow>
      getEnquiryById b i = ([ConsoleError ''Error fetching enquiry:'' e], Inl e))
   \<and> (filter (\<lambda>c. c_id c = i) (t_companies db) = [] \<longrightarrow>
      getCompanyById (pg_backend sem db) i = ([], Inr None))
   \<and> (filter (\<lambda>p. ct_id p = i) (t_contacts db) = [] \<longrightarrow>
      getContactById (pg_backend sem db) i = ([], Inr None))
   \<and> (filter (\<lambda>x. e_id x = i) (t_enquiries db) = [] \<longrightarrow>
      getEnquiryById (pg_backend sem db) i = ([], Inr None))"
  by (simp add: getCompanyById_def getContactById_def getEnquiryById_def
      single_or_null_error single_or_null_rejected single_or_null_pg_single pg_backend_def)

theorem lookup_row_not_found_witness:
  "getCompanyById (pg_backend plain_sem small_db) (js ''no-such-id'') = ([], Inr None)
   \<and> getContactById (pg_backend plain_sem small_db) (js ''no-such-id'') = ([], Inr None)
   \<and> getEnquiryById (pg_backend plain_sem small_db) (js ''no-such-id'') = ([], Inr None)
   \<and> getCompanyById refusing_backend (js ''e1'') =
       ([ConsoleError ''Error fetching company:'' (PostgrestError permission_denied)],
        Inl (PostgrestError permission_denied))
   \<and> getContactById refusing_backend (js ''e1'') =
       ([ConsoleError ''Error fetching contact:'' (PostgrestError permission_denied)],
        Inl (PostgrestError permission_denied))
   \<and> getEnquiryById refusing_backend (js ''e1'') =
       ([ConsoleError ''Error fetching enquiry:'' (PostgrestError permission_denied)],
        Inl (PostgrestError permission_denied))"
proof -
  have absent:
    "filter (\<lambda>c. c_id c = js ''no-such-id'') (t_companies small_db) = []"
    "filter (\<lambda>p. ct_id p = js ''no-such-id'') (t_contacts small_db) = []"
    "filter (\<lambda>x. e_id x = js ''no-such-id'') (t_enquiries small_db) = []"
    by (simp_all add: small_db_def acme_def ravi_def pump_enquiry_def valve_enquiry_def js_def)
  have refused:
    "companies_by_id refusing_backend (js ''e1'')
       = Inr \<lparr>rs_data = None, rs_error = Some permission_denied\<rparr>"
    "contacts_by_id refusing_backend (js ''e1'')
       = Inr \<lparr>rs_data = None, rs_error = Some permission_denied\<rparr>"
    "enquiries_by_id refusing_backend (js ''e1'')
       = Inr \<lparr>rs_data = None, rs_error = Some permission_denied\<rparr>"
    by (simp_all add: refusing_backend_def)
  have code: "err_code permission_denied \<noteq> js ''PGRST116''"
    by (simp add: permission_denied_def js_def)
  from absent
    lookup_row_not_found [where b = "pg_backend plain_sem small_db" and i = "js ''no-such-id''"
      and rc = "\<lparr>rs_data = None, rs_error = None\<rparr>"
      and rp = "\<lparr>rs_data = None, rs_error = None\<rparr>"
      and re = "\<lparr>rs_data = None, rs_error = None\<rparr>"
      and err = permission_denied and e = "JsError []"
      and db = small_db and sem = plain_sem]
  have 1: "getCompanyById (pg_backend plain_sem small_db) (js ''no-such-id'') = ([], Inr None)"
    "getContactById (pg_backend plain_sem small_db) (js ''no-such-id'') = ([], Inr None)"
    "getEnquiryById (pg_backend plain_sem small_db) (js ''no-such-id'') = ([], Inr None)"
    by blast+
  from refused code
    lookup_row_not_found [where b = refusing_backend and i = "js ''e1''"
      and rc = "\<lparr>rs_data = None, rs_error = Some permission_denied\<rparr>"
      and rp = "\<lparr>rs_data = None, rs_error = Some permission_denied\<rparr>"
      and re = "\<lparr>rs_data = None, rs_error = Some permission_denied\<rparr>"
      and err = permission_denied and e = "JsError []"
      and db = small_db and sem = plain_sem]
  have 2: "getCompanyById refusing_backend (js ''e1'') =
       ([ConsoleError ''Error fetching company:'' (PostgrestError permission_denied)],
        Inl (PostgrestError permission_denied))"
    "getContactById refusing_backend (js ''e1'') =
       ([ConsoleError ''Error fetching contact:'' (PostgrestError permission_denied)],
        Inl (PostgrestError permission_denied))"
    "getEnquiryById refusing_backend (js ''e1'') =
       ([ConsoleError ''Error fetching enquiry:'' (PostgrestError permission_denied)],
        Inl (PostgrestError permission_denied))"
    by simp_all
  from 1 2 show ?thesis by blast
qed

section \<open>Status change\<close>

lemma filter_unique_key:
  "distinct (map key rows) \<Longrightarrow> e \<in> set rows \<Longrightarrow> filter (\<lambda>r. key r = key e) rows = [e]"
proof (induction rows)
  case Nil
  then show ?case by simp
next
  case (Cons r rows)
  show ?case
  proof (cases "r = e")
    case True
    with Cons.prems have "key e \<notin> key ` set rows" by simp
    then have "filter (\<lambda>r. key r = key e) rows = []"
      by (force simp: filter_empty_conv image_iff)
    with True show ?thesis by simp
  next
    case False
    with Cons.prems have "e \<in> set rows" "key r \<noteq> key e" by auto
    with Cons show ?thesis by simp
  qed
qed

lemma map_unique_key:
  "distinct (map key rows) \<Longrightarrow> e \<in> set rows \<Longrightarrow>
     map (\<lambda>r. if key r = key e then f r else r) rows = map (\<lambda>r. if r = e then f e else r) rows"
  by (rule map_cong) (auto simp: distinct_map inj_on_def)

lemma apply_status_patch: "apply_patch (status_patch s) e = e\<lparr>status := s\<rparr>"
  by (simp add: apply_patch_def status_patch_def)

text \<open>
  Claim C8: for an enquiry stored under its primary key and any of the six status values,
  the status change sends the payload \<open>{ status }\<close> alone; the backend then holds the
  same rows, the enquiry with the new status and every other field as before, the
  screen shows that row, and nothing is logged.
\<close>

theorem handleStatusChange_only_status:
  assumes "distinct (map e_id (t_enquiries db))" and "e \<in> set (t_enquiries db)"
  shows "handleStatusChange (pg_backend sem db) db scr (e_id e) s =
           (db\<lparr>t_enquiries := map (\<lambda>r. if r = e then e\<lparr>status := s\<rparr> else r) (t_enquiries db)\<rparr>,
            scr\<lparr>ds_saving := False, ds_enquiry := Some (e\<lparr>status := s\<rparr>),
                ds_showStatusModal := False\<rparr>,
            [])"
proof -
  from assms have found: "filter (\<lambda>r. e_id r = e_id e) (t_enquiries db) = [e]"
    by (rule filter_unique_key)
  from assms have rows:
    "map (\<lambda>r. if e_id r = e_id e then apply_patch (status_patch s) r else r) (t_enquiries db)
       = map (\<lambda>r. if r = e then e\<lparr>status := s\<rparr> else r) (t_enquiries db)"
    by (simp add: map_unique_key apply_status_patch)
  have "pg_update_enquiry db (e_id e) (status_patch s) =
          (db\<lparr>t_enquiries := map (\<lambda>r. if r = e then e\<lparr>status := s\<rparr> else r) (t_enquiries db)\<rparr>,
           Inr \<lparr>rs_data = Some (e\<lparr>status := s\<rparr>), rs_error = None\<rparr>)"
    by (simp add: pg_update_enquiry_def found rows apply_status_patch)
  then show ?thesis
    by (simp add: handleStatusChange_def updateEnquiry_def pg_backend_def)
qed

theorem handleStatusChange_only_status_witness:
  "handleStatusChange (pg_backend plain_sem small_db) small_db idle_screen (js ''e1'') Quoted =
     (small_db\<lparr>t_enquiries := [pump_enquiry\<lparr>status := Quoted\<rparr>, valve_enquiry]\<rparr>,
      idle_screen\<lparr>ds_enquiry := Some (pump_enquiry\<lparr>status := Quoted\<rparr>),
                  ds_showStatusModal := False\<rparr>,
      [])"
proof -
  have d: "distinct (map e_id (t_enquiries small_db))"
    and m: "pump_enquiry \<in> set (t_enquiries small_db)"
    and i: "e_id pump_enquiry = js ''e1''"
    and n: "valve_enquiry \<noteq> pump_enquiry"
    by (simp_all add: small_db_def pump_enquiry_def valve_enquiry_def js_def)
  have s: "idle_screen\<lparr>ds_saving := False\<rparr> = idle_screen"
    by (simp add: idle_screen_def)
  from handleStatusChange_only_status [OF d m, of plain_sem idle_screen Quoted] i n s
  show ?thesis by (simp add: small_db_def)
qed

section \<open>Export projection\<close>








section \<open>Reminder notifications\<close>

text \<open>
  Claim C6: a reminder whose due time is at or before the current time is skipped: the
  operation returns normally, makes no platform call, and leaves the map (and the
  platform) as they were; it writes one warning to the console.
\<close>

theorem schedule_past_due_skipped:
  assumes "parse_date clk (reminder_date reminder) = Some t" and "t \<le> now clk"
  shows "scheduleReminderNotification clk api st reminder =
           (st\<lparr>console := console st
                  @ [ConsoleWarn ''Reminder date is in the past, skipping scheduling'']\<rparr>,
            Inr ())
         \<and> scheduledNotifications (fst (scheduleReminderNotification clk api st reminder))
             = scheduledNotifications st
         \<and> calls (fst (scheduleReminderNotification clk api st reminder)) = calls st
         \<and> platform (fst (scheduleReminderNotification clk api st reminder)) = platform st"
  using assms by (simp add: scheduleReminderNotification_def date_le_def)

theorem schedule_past_due_skipped_witness:
  "parse_date test_clock (reminder_date (reminder_r2 (js ''past''))) = Some 999999
   \<and> (999999 :: int) \<le> now test_clock
   \<and> snd (scheduleReminderNotification test_clock numbering_expo one_scheduled
           (reminder_r2 (js ''past''))) = Inr ()
   \<and> scheduledNotifications (fst (scheduleReminderNotification test_clock numbering_expo
         one_scheduled (reminder_r2 (js ''past'')))) = scheduledNotifications one_scheduled
   \<and> calls (fst (scheduleReminderNotification test_clock numbering_expo one_scheduled
         (reminder_r2 (js ''past'')))) = []"
proof -
  have p: "parse_date test_clock (reminder_date (reminder_r2 (js ''past''))) = Some 999999"
    and n: "(999999 :: int) \<le> now test_clock"
    by (simp_all add: test_clock_def reminder_r2_def)
  have c: "calls one_scheduled = []" by (simp add: one_scheduled_def)
  from schedule_past_due_skipped [OF p n, of numbering_expo one_scheduled] p n c
  show ?thesis by simp
qed

lemma scheduleReminderNotification_future:
  assumes "parse_date clk (reminder_date reminder) = Some t" and "now clk < t"
    and "scheduleNotificationAsync api (platform st) (reminder_payload reminder) (Some t)
           = (p1, Inr h)"
    and "h \<noteq> []"
  shows "scheduleReminderNotification clk api st reminder =
           (st\<lparr>platform := p1,
               calls := calls st @ [ScheduleCall (reminder_payload reminder) (Some t)],
               scheduledNotifications := (scheduledNotifications st)(r_id reminder \<mapsto> h)\<rparr>,
            Inr ())"
  using assms
  by (simp add: scheduleReminderNotification_def scheduleNotification_def date_le_def)

lemma cancelReminderNotification_scheduled:
  assumes "scheduledNotifications st reminderId = Some h" and "h \<noteq> []"
    and "cancelScheduledNotificationAsync api (platform st) h = (p2, r)"
  shows "cancelReminderNotification api st reminderId =
           (st\<lparr>platform := p2,
               calls := calls st @ [CancelCall h],
               console := console st
                 @ (case r of Inl e \<Rightarrow> [ConsoleError ''Error canceling notification:'' e]
                    | Inr _ \<Rightarrow> []),
               scheduledNotifications := (scheduledNotifications st)(reminderId := None)\<rparr>,
            Inr ())"
  using assms
  by (cases r) (simp_all add: cancelReminderNotification_def cancelNotification_def)

text \<open>
  Claim C5: when a reminder is due in the future and the platform schedules it, giving a
  handle (a non-empty notification id, which is what the service tests before it stores
  one), then scheduling it and cancelling it at once leaves the map without an entry for
  its id. The platform's schedule operation is applied once, and then its cancel operation
  once, to the state the schedule left and for that handle: the platform ends in the state
  that this one cancel gives, and the calls recorded are those two. This holds whether
  the platform's cancel call succeeds or rejects; a rejection is logged.
\<close>

theorem schedule_then_cancel:
  assumes "parse_date clk (reminder_date reminder) = Some t" and "now clk < t"
    and "scheduleNotificationAsync api (platform st) (reminder_payload reminder) (Some t)
           = (p1, Inr h)"
    and "h \<noteq> []"
  shows "(let (st1, r1) = scheduleReminderNotification clk api st reminder;
              (st2, r2) = cancelReminderNotification api st1 (r_id reminder)
          in scheduledNotifications st1 (r_id reminder) = Some h
             \<and> scheduledNotifications st2 = (scheduledNotifications st)(r_id reminder := None)
             \<and> calls st2 = calls st @ [ScheduleCall (reminder_payload reminder) (Some t),
                                        CancelCall h]
             \<and> length (filter (\<lambda>c. \<exists>i. c = CancelCall i) (calls st2))
                 = Suc (length (filter (\<lambda>c. \<exists>i. c = CancelCall i) (calls st)))
             \<and> r1 = Inr () \<and> r2 = Inr ()
             \<and> platform st1 = p1
             \<and> platform st2 = fst (cancelScheduledNotificationAsync api p1 h)
             \<and> st2 = st\<lparr>platform := fst (cancelScheduledNotificationAsync api p1 h),
                        calls := calls st @ [ScheduleCall (reminder_payload reminder) (Some t),
                                             CancelCall h],
                        console := console st
                          @ (case snd (cancelScheduledNotificationAsync api p1 h) of
                               Inl e \<Rightarrow> [ConsoleError ''Error canceling notification:'' e]
                             | Inr _ \<Rightarrow> []),
                        scheduledNotifications :=
                          (scheduledNotifications st)(r_id reminder := None)\<rparr>)"
proof -
  let ?st1 = "st\<lparr>platform := p1,
               calls := calls st @ [ScheduleCall (reminder_payload reminder) (Some t)],
               scheduledNotifications := (scheduledNotifications st)(r_id reminder \<mapsto> h)\<rparr>"
  have s: "scheduleReminderNotification clk api st reminder = (?st1, Inr ())"
    using assms by (rule scheduleReminderNotification_future)
  obtain p2 r where c: "cancelScheduledNotificationAsync api (platform ?st1) h = (p2, r)"
    by (cases "cancelScheduledNotificationAsync api (platform ?st1) h")
  then have c': "cancelScheduledNotificationAsync api p1 h = (p2, r)" by simp
  have m: "scheduledNotifications ?st1 (r_id reminder) = Some h" by simp
  note k = cancelReminderNotification_scheduled [OF m \<open>h \<noteq> []\<close> c]
  show ?thesis
    apply (simp only: s Let_def prod.case k)
    apply (simp add: c')
    done
qed

theorem schedule_then_cancel_witness:
  "(let (st1, r1) = scheduleReminderNotification test_clock counting_expo one_pending
                      (reminder_r2 (js ''future''));
        (st2, r2) = cancelReminderNotification counting_expo st1 (js ''r2'')
    in scheduledNotifications st1 (js ''r2'') = Some (js ''n1'')
       \<and> platform st1 = ([js ''n0'', js ''n1''], 100)
       \<and> scheduledNotifications st2 (js ''r2'') = None
       \<and> scheduledNotifications st2 (js ''r1'') = Some (js ''n0'')
       \<and> platform st2 = ([js ''n0''], 101)
       \<and> calls st2 = [ScheduleCall (reminder_payload (reminder_r2 (js ''future''))) (Some 2000000),
                       CancelCall (js ''n1'')])"
proof -
  have p: "parse_date test_clock (reminder_date (reminder_r2 (js ''future''))) = Some 2000000"
    and n: "now test_clock < 2000000"
    by (simp_all add: test_clock_def reminder_r2_def js_def)
  have s: "scheduleNotificationAsync counting_expo (platform one_pending)
             (reminder_payload (reminder_r2 (js ''future''))) (Some 2000000)
           = (([js ''n0'', js ''n1''], 100), Inr (js ''n1''))"
    by (simp add: counting_expo_def one_pending_def js_def)
  have c: "cancelScheduledNotificationAsync counting_expo ([js ''n0'', js ''n1''], 100) (js ''n1'')
           = (([js ''n0''], 101), Inr ())"
    by (simp add: counting_expo_def js_def)
  have h: "js ''n1'' \<noteq> []" by (simp add: js_def)
  have i: "r_id (reminder_r2 (js ''future'')) = js ''r2''" by (simp add: reminder_r2_def)
  have m: "scheduledNotifications one_pending = [js ''r1'' \<mapsto> js ''n0'']"
    "calls one_pending = []" "js ''r1'' \<noteq> js ''r2''"
    by (simp_all add: one_pending_def js_def)
  from schedule_then_cancel [OF p n s h] i m c show ?thesis
    by (simp add: Let_def split: prod.splits)
qed

lemma schedule_each_completed:
  "list_all is_completed fetched \<Longrightarrow> schedule_each clk api st fetched = st"
  by (induction fetched) simp_all

text \<open>
  Claim C4, as the code has it. When the fetch of the upcoming reminders succeeds and no
  fetched reminder is incomplete (in particular when none is fetched), \<open>syncReminders\<close>
  calls the platform's cancel-all whatever the map holds, and when that call succeeds the
  map is empty afterwards; the only platform call made is that one. When the call
  rejects, the error is logged and the map is left as it was.
\<close>

theorem syncReminders_empty_resets:
  assumes "getUpcomingReminders clk b 30 = (log, Inr fetched)"
    and "list_all is_completed fetched"
    and "cancelAllScheduledNotificationsAsync api (platform st) = (p1, r)"
  shows "syncReminders clk b api st =
           (st\<lparr>platform := p1,
               calls := calls st @ [CancelAllCall],
               scheduledNotifications :=
                 (case r of Inr _ \<Rightarrow> Map.empty | Inl e \<Rightarrow> scheduledNotifications st),
               console := console st @ log
                 @ (case r of Inr _ \<Rightarrow> []
                    | Inl e \<Rightarrow> [ConsoleError ''Error canceling all notifications:'' e])
                 @ [ConsoleLog (js ''Synced '' @ number_string (int (length fetched))
                                @ js '' reminders'')]\<rparr>,
            Inr ())"
  using assms
  by (cases r)
     (simp_all add: syncReminders_def cancelAllNotifications_def schedule_each_completed)

lemma quiet_fetch: "getUpcomingReminders test_clock quiet_backend 30 = ([], Inr [])"
  by (simp add: getUpcomingReminders_def quiet_backend_def pg_backend_def rows_or_empty_def
      pg_select_def pg_range_def pg_order_def small_db_def)

theorem syncReminders_empty_resets_witness:
  "getUpcomingReminders test_clock quiet_backend 30 = ([], Inr [])
   \<and> scheduledNotifications one_scheduled (js ''r1'') = Some (js ''n0'')
   \<and> scheduledNotifications (fst (syncReminders test_clock quiet_backend numbering_expo
         one_scheduled)) = Map.empty
   \<and> calls (fst (syncReminders test_clock quiet_backend numbering_expo one_scheduled))
       = [CancelAllCall]"
proof -
  have c: "cancelAllScheduledNotificationsAsync numbering_expo (platform one_scheduled)
             = (1, Inr ())"
    by (simp add: numbering_expo_def one_scheduled_def)
  have e: "list_all is_completed ([] :: Reminder list)" by simp
  have m: "scheduledNotifications one_scheduled (js ''r1'') = Some (js ''n0'')"
    "calls one_scheduled = []"
    by (simp_all add: one_scheduled_def)
  from syncReminders_empty_resets [OF quiet_fetch e c] m quiet_fetch show ?thesis by simp
qed

theorem syncReminders_counterexample:
  "getUpcomingReminders test_clock quiet_backend 30 = ([], Inr [])
   \<and> scheduledNotifications (fst (syncReminders test_clock quiet_backend stuck_expo
         one_scheduled)) (js ''r1'') = Some (js ''n0'')
   \<and> calls (fst (syncReminders test_clock quiet_backend stuck_expo one_scheduled))
       = [CancelAllCall]"
  by (simp add: quiet_fetch syncReminders_def cancelAllNotifications_def stuck_expo_def
      numbering_expo_def one_scheduled_def)

end
